theory Spec2Isabelle
  imports Complex_Main "HOL-Library.Word" "HOL-Library.Monad_Syntax"
begin

section \<open>Pointers and typed heaps\<close>

text \<open>
  A C pointer is an address; \<open>NULL\<close> is address 0. Each kind of heap object
  (\<open>BackgroundInfo\<close>, \<open>cairo_surface_t\<close>, \<open>GdkPixbuf\<close>) lives in a heap of its own.
  Cell \<open>p - 1\<close> of the list holds the object at address \<open>p\<close>; a cell is \<open>None\<close> once the
  object has been released. Reading through \<open>NULL\<close>, through an address that was never
  handed out, or through a released one gives \<open>None\<close>: the C program has no defined
  behaviour there.
\<close>

type_synonym ptr = nat

definition NULL :: ptr where
  "NULL = 0"

type_synonym 'a heap = "'a option list"

definition heap_get :: "'a heap \<Rightarrow> ptr \<Rightarrow> 'a option" where
  "heap_get h p = (if p = NULL \<or> length h < p then None else h ! (p - 1))"

definition heap_new :: "'a heap \<Rightarrow> 'a \<Rightarrow> ptr \<times> 'a heap" where
  "heap_new h v = (Suc (length h), h @ [Some v])"

definition heap_set :: "'a heap \<Rightarrow> ptr \<Rightarrow> 'a \<Rightarrow> 'a heap" where
  "heap_set h p v = (if p = NULL then h else h[p - 1 := Some v])"

definition heap_free :: "'a heap \<Rightarrow> ptr \<Rightarrow> 'a heap" where
  "heap_free h p = (if p = NULL then h else h[p - 1 := None])"

section \<open>Data\<close>

text \<open>
  Modelled from the spec: the declaration of \<open>struct BackgroundInfo\<close> is in
  \<open>background.h\<close>, which is not among the sources. The fields are the ones
  \<open>background.c\<close> reads and writes: \<open>container\<close> (a \<open>GtkWidget*\<close>, the spec's
  containerHandle), \<open>bg\<close> (a \<open>cairo_surface_t*\<close>, the spec's surface) and \<open>alpha\<close>
  (a \<open>double\<close>, the spec's alphaLevel). The fourth field, the mutex \<open>m\<close>, holds nothing
  the code reads; it is identified by the instance that owns it, and locking and
  unlocking it are events of the trace below.

  The code never computes with \<open>alpha\<close>: it stores the value and hands it to the drawing
  library, so the \<open>double\<close> is a \<open>real\<close> here.
\<close>

record BackgroundInfo =
  container :: ptr
  bg :: ptr
  alpha :: real

text \<open>What an image file decodes to.\<close>

datatype GdkPixbuf = Pixbuf (pixbuf_width: nat) (pixbuf_height: nat)

text \<open>
  A surface is backed by an X drawable (display, drawable, visual, width, height: the
  arguments of \<open>cairo_xlib_surface_create\<close>) or holds the pixels of a decoded image
  (pixbuf contents, scale, window: the arguments of
  \<open>gdk_cairo_surface_create_from_pixbuf\<close>). Width and height are the \<open>guint\<close> values as
  the code passes them.
\<close>

datatype cairo_surface =
    XlibSurface ptr "32 word" ptr "32 word" "32 word"
  | PixbufSurface GdkPixbuf int ptr

datatype log_arg = ArgString string | ArgUInt "32 word"

type_synonym GdkRectangle = "int \<times> int \<times> int \<times> int"

type_synonym GdkRGBA = "real \<times> real \<times> real \<times> real"

text \<open>
  The calls the code makes into GLib, GDK, GTK and cairo, and its stores to the fields of
  an instance, in the order they happen. A call that returns a new object carries the
  returned pointer as its last argument.
\<close>

datatype event =
    G_message string "log_arg list"
  | G_warning string "log_arg list"
  | G_error_free string
  | G_new0 ptr
  | G_free ptr
  | G_mutex_init ptr
  | G_mutex_lock ptr
  | G_mutex_unlock ptr
  | G_mutex_clear ptr
  | Store_bg ptr ptr
  | Store_alpha ptr real
  | Cairo_set_source_surface ptr ptr real real
  | Cairo_paint_with_alpha ptr real
  | Gdk_cairo_set_source_window ptr ptr real real
  | Cairo_paint ptr
  | G_list_free "ptr list"
  | Cairo_surface_destroy ptr
  | Cairo_xlib_surface_create ptr "32 word" ptr "32 word" "32 word" ptr
  | Gdk_pixbuf_new_from_file string ptr
  | Gdk_cairo_surface_create_from_pixbuf ptr int ptr ptr
  | G_object_unref ptr
  | Gdk_window_invalidate_rect ptr "GdkRectangle option" bool
  | Gtk_widget_realize ptr
  | Gdk_window_set_composited ptr bool
  | G_signal_connect ptr string ptr
  | Gdk_window_set_background_rgba ptr GdkRGBA

record world =
  infos :: "BackgroundInfo heap"
  surfaces :: "cairo_surface heap"
  pixbufs :: "GdkPixbuf heap"
  trace :: "event list"

text \<open>
  What the windowing system and the toolkit answer. \<open>XGetGeometry\<close> is the query between
  \<open>gdk_error_trap_push\<close> and \<open>gdk_error_trap_pop\<close>: \<open>None\<close> when the trap reports an X
  error, the width and height otherwise. \<open>image_file\<close> is what decoding the file at a
  path gives: \<open>Inl\<close> the message of the \<open>GError\<close> that \<open>gdk_pixbuf_new_from_file\<close> sets,
  \<open>Inr\<close> the decoded image. \<open>gdk_x11_visual_get_xvisual\<close> is the X visual of
  \<open>gdk_visual_get_system ()\<close>. Queries are answered from here and leave no event.
\<close>

record gtk =
  gdk_x11_get_default_xdisplay :: ptr
  gdk_x11_visual_get_xvisual :: ptr
  XGetGeometry :: "32 word \<Rightarrow> (32 word \<times> 32 word) option"
  image_file :: "string \<Rightarrow> string + GdkPixbuf"
  gtk_container_get_children :: "ptr \<Rightarrow> ptr list"
  gtk_widget_get_visible :: "ptr \<Rightarrow> bool"
  gtk_widget_get_window :: "ptr \<Rightarrow> ptr"

section \<open>Library calls\<close>

text \<open>
  The library functions are not part of \<open>background.c\<close>; each is modelled by what the code
  relies on. A call that logs, locks, draws, allocates, releases, invalidates or sets up a
  widget adds its event to the trace; the calls that allocate or release also update the
  heap of their objects.
\<close>

definition emit :: "event \<Rightarrow> world \<Rightarrow> world" where
  "emit e s = s\<lparr>trace := trace s @ [e]\<rparr>"

text \<open>The events a call has added to the trace.\<close>

definition since :: "world \<Rightarrow> world \<Rightarrow> event list" where
  "since s s' = drop (length (trace s)) (trace s')"

text \<open>\<open>info->bg = p\<close> and \<open>info->alpha = a\<close>.\<close>

definition store_bg :: "ptr \<Rightarrow> ptr \<Rightarrow> world \<Rightarrow> world option" where
  "store_bg info p s =
     (case heap_get (infos s) info of
        None \<Rightarrow> None
      | Some i \<Rightarrow>
          Some (emit (Store_bg info p) (s\<lparr>infos := heap_set (infos s) info (i\<lparr>bg := p\<rparr>)\<rparr>)))"

definition store_alpha :: "ptr \<Rightarrow> real \<Rightarrow> world \<Rightarrow> world option" where
  "store_alpha info a s =
     (case heap_get (infos s) info of
        None \<Rightarrow> None
      | Some i \<Rightarrow>
          Some (emit (Store_alpha info a)
                  (s\<lparr>infos := heap_set (infos s) info (i\<lparr>alpha := a\<rparr>)\<rparr>)))"

text \<open>
  A surface is created holding one reference, which the instance that stores it owns;
  \<open>cairo_surface_destroy\<close> gives that reference up. Using or releasing a surface that has
  been released is undefined. The same holds for a pixbuf and \<open>g_object_unref\<close>.
\<close>

definition cairo_set_source_surface :: "ptr \<Rightarrow> ptr \<Rightarrow> real \<Rightarrow> real \<Rightarrow> world \<Rightarrow> world option" where
  "cairo_set_source_surface cr surface x y s =
     (case heap_get (surfaces s) surface of
        None \<Rightarrow> None
      | Some _ \<Rightarrow> Some (emit (Cairo_set_source_surface cr surface x y) s))"

definition cairo_surface_destroy :: "ptr \<Rightarrow> world \<Rightarrow> world option" where
  "cairo_surface_destroy surface s =
     (case heap_get (surfaces s) surface of
        None \<Rightarrow> None
      | Some _ \<Rightarrow>
          Some (emit (Cairo_surface_destroy surface)
                  (s\<lparr>surfaces := heap_free (surfaces s) surface\<rparr>)))"

definition cairo_xlib_surface_create ::
  "ptr \<Rightarrow> 32 word \<Rightarrow> ptr \<Rightarrow> 32 word \<Rightarrow> 32 word \<Rightarrow> world \<Rightarrow> ptr \<times> world" where
  "cairo_xlib_surface_create dpy drawable visual width height s =
     (let (p, h) = heap_new (surfaces s) (XlibSurface dpy drawable visual width height)
      in (p, emit (Cairo_xlib_surface_create dpy drawable visual width height p)
               (s\<lparr>surfaces := h\<rparr>)))"

definition gdk_cairo_surface_create_from_pixbuf ::
  "ptr \<Rightarrow> int \<Rightarrow> ptr \<Rightarrow> world \<Rightarrow> (ptr \<times> world) option" where
  "gdk_cairo_surface_create_from_pixbuf pb scale for_window s =
     (case heap_get (pixbufs s) pb of
        None \<Rightarrow> None
      | Some img \<Rightarrow>
          (let (p, h) = heap_new (surfaces s) (PixbufSurface img scale for_window)
           in Some (p, emit (Gdk_cairo_surface_create_from_pixbuf pb scale for_window p)
                         (s\<lparr>surfaces := h\<rparr>))))"

definition g_object_unref :: "ptr \<Rightarrow> world \<Rightarrow> world option" where
  "g_object_unref pb s =
     (case heap_get (pixbufs s) pb of
        None \<Rightarrow> None
      | Some _ \<Rightarrow>
          Some (emit (G_object_unref pb) (s\<lparr>pixbufs := heap_free (pixbufs s) pb\<rparr>)))"

definition gdk_pixbuf_new_from_file :: "gtk \<Rightarrow> string \<Rightarrow> world \<Rightarrow> (string + ptr) \<times> world" where
  "gdk_pixbuf_new_from_file env file s =
     (case image_file env file of
        Inl message \<Rightarrow> (Inl message, emit (Gdk_pixbuf_new_from_file file NULL) s)
      | Inr img \<Rightarrow>
          (let (pb, h) = heap_new (pixbufs s) img
           in (Inr pb, emit (Gdk_pixbuf_new_from_file file pb) (s\<lparr>pixbufs := h\<rparr>))))"

text \<open>\<open>g_new0 (BackgroundInfo, 1)\<close>: a new instance, every field zero.\<close>

definition g_new0 :: "world \<Rightarrow> ptr \<times> world" where
  "g_new0 s =
     (let (info, h) = heap_new (infos s) \<lparr>container = NULL, bg = NULL, alpha = 0\<rparr>
      in (info, emit (G_new0 info) (s\<lparr>infos := h\<rparr>)))"

definition g_free :: "ptr \<Rightarrow> world \<Rightarrow> world" where
  "g_free info s = emit (G_free info) (s\<lparr>infos := heap_free (infos s) info\<rparr>)"

section \<open>background.c\<close>

text \<open>The loop over the children of the container, in list order.\<close>

fun paint_children :: "gtk \<Rightarrow> ptr \<Rightarrow> ptr list \<Rightarrow> world \<Rightarrow> world" where
  "paint_children env cr [] s = s"
| "paint_children env cr (child # l) s =
     paint_children env cr l
       (if gtk_widget_get_visible env child
        then emit (Cairo_paint cr)
               (emit (Gdk_cairo_set_source_window cr (gtk_widget_get_window env child) 0 0) s)
        else s)"

definition background_info_draw_callback ::
  "gtk \<Rightarrow> ptr \<Rightarrow> ptr \<Rightarrow> ptr \<Rightarrow> world \<Rightarrow> (bool \<times> world) option" where
  "background_info_draw_callback env w cr info s = do {
     i \<leftarrow> heap_get (infos s) info;
     s1 \<leftarrow> (if bg i \<noteq> NULL then do {
              let s' = emit (G_mutex_lock info) s;
              s' \<leftarrow> cairo_set_source_surface cr (bg i) 0 0 s';
              let s' = emit (Cairo_paint_with_alpha cr (alpha i)) s';
              Some (emit (G_mutex_unlock info) s')
            } else Some s);
     let children = gtk_container_get_children env w;
     let s2 = paint_children env cr children s1;
     let s3 = emit (G_list_free children) s2;
     Some (True, s3)
   }"

definition background_info_set_background_by_drawable ::
  "gtk \<Rightarrow> ptr \<Rightarrow> 32 word \<Rightarrow> world \<Rightarrow> world option" where
  "background_info_set_background_by_drawable env info drawable s =
     (let dpy = gdk_x11_get_default_xdisplay env in
      case XGetGeometry env drawable of
        None \<Rightarrow>
          Some (emit (G_warning ''set_background_by_drawable invalid drawable %d \<newline>''
                        [ArgUInt drawable]) s)
      | Some (width, height) \<Rightarrow> do {
          let s1 = emit (G_mutex_lock info) s;
          i \<leftarrow> heap_get (infos s1) info;
          s2 \<leftarrow> (if bg i \<noteq> NULL then do {
                   s' \<leftarrow> cairo_surface_destroy (bg i) s1;
                   store_bg info NULL s'
                 } else Some s1);
          let (p, s3) = cairo_xlib_surface_create dpy drawable
                          (gdk_x11_visual_get_xvisual env) width height s2;
          s4 \<leftarrow> store_bg info p s3;
          let s5 = emit (G_mutex_unlock info) s4;
          i' \<leftarrow> heap_get (infos s5) info;
          Some (emit (Gdk_window_invalidate_rect
                        (gtk_widget_get_window env (container i')) None False) s5)
        })"

definition background_info_set_background_by_file ::
  "gtk \<Rightarrow> ptr \<Rightarrow> string \<Rightarrow> world \<Rightarrow> world option" where
  "background_info_set_background_by_file env info file s =
     (let s0 = emit (G_message ''background_info_set_background_by_file:%s'' [ArgString file]) s;
          (pb, s1) = gdk_pixbuf_new_from_file env file s0
      in case pb of
           Inl message \<Rightarrow>
             Some (emit (G_error_free message)
                     (emit (G_warning ''set_background_by_file failed: %s\<newline>''
                              [ArgString message]) s1))
         | Inr pb \<Rightarrow> do {
             let s2 = emit (G_mutex_lock info) s1;
             i \<leftarrow> heap_get (infos s2) info;
             s3 \<leftarrow> (if bg i \<noteq> NULL then do {
                      s' \<leftarrow> cairo_surface_destroy (bg i) s2;
                      store_bg info NULL s'
                    } else Some s2);
             (p, s4) \<leftarrow> gdk_cairo_surface_create_from_pixbuf pb 1
                           (gtk_widget_get_window env (container i)) s3;
             s5 \<leftarrow> store_bg info p s4;
             let s6 = emit (G_mutex_unlock info) s5;
             s7 \<leftarrow> g_object_unref pb s6;
             i' \<leftarrow> heap_get (infos s7) info;
             Some (emit (Gdk_window_invalidate_rect
                           (gtk_widget_get_window env (container i')) None False) s7)
           })"

definition background_info_change_alpha ::
  "gtk \<Rightarrow> ptr \<Rightarrow> real \<Rightarrow> world \<Rightarrow> world option" where
  "background_info_change_alpha env info alpha' s = do {
     s1 \<leftarrow> store_alpha info alpha' s;
     i \<leftarrow> heap_get (infos s1) info;
     Some (emit (Gdk_window_invalidate_rect
                   (gtk_widget_get_window env (container i)) None False) s1)
   }"

definition background_info_clear :: "ptr \<Rightarrow> world \<Rightarrow> world option" where
  "background_info_clear info s = do {
     i \<leftarrow> heap_get (infos s) info;
     s1 \<leftarrow> (if bg i \<noteq> NULL then cairo_surface_destroy (bg i) s else Some s);
     let s2 = emit (G_mutex_clear info) s1;
     Some (g_free info s2)
   }"

definition create_background_info ::
  "gtk \<Rightarrow> ptr \<Rightarrow> ptr \<Rightarrow> world \<Rightarrow> (ptr \<times> world) option" where
  "create_background_info env container' child s = do {
     let s1 = emit (G_message ''create_background_info'' []) s;
     let (info, s2) = g_new0 s1;
     let s3 = emit (G_mutex_init info) s2;
     s4 \<leftarrow> store_alpha info 1 s3;
     let s5 = emit (Gtk_widget_realize child) s4;
     let s6 = emit (Gdk_window_set_composited (gtk_widget_get_window env child) True) s5;
     let s7 = emit (G_signal_connect container' ''draw'' info) s6;
     let s8 = emit (Gtk_widget_realize container') s7;
     let color = (0, 0, 0, 0);
     let s9 = emit (Gdk_window_set_background_rgba (gtk_widget_get_window env container') color) s8;
     Some (info, s9)
   }"

section \<open>Reading a trace\<close>

text \<open>
  What a cairo context paints. The context has a current source; \<open>cairo_set_source_surface\<close>
  and \<open>gdk_cairo_set_source_window\<close> replace it, \<open>cairo_paint\<close> paints the current source
  as it is and \<open>cairo_paint_with_alpha\<close> paints it through a constant alpha mask. A layer
  is the source that was painted and the mask (\<open>None\<close> for a plain paint); \<open>render\<close> lists the
  layers that the events of a trace paint into the context \<open>cr\<close>, bottom layer first,
  starting from the source the context had before.
\<close>

datatype cairo_source =
    SourceInitial
  | SourceSurface ptr real real
  | SourceWindow ptr real real

datatype layer = Layer cairo_source "real option"

fun render :: "ptr \<Rightarrow> cairo_source \<Rightarrow> event list \<Rightarrow> layer list" where
  "render cr src [] = []"
| "render cr src (Cairo_set_source_surface c p x y # es) =
     render cr (if c = cr then SourceSurface p x y else src) es"
| "render cr src (Gdk_cairo_set_source_window c win x y # es) =
     render cr (if c = cr then SourceWindow win x y else src) es"
| "render cr src (Cairo_paint_with_alpha c a # es) =
     (if c = cr then [Layer src (Some a)] else []) @ render cr src es"
| "render cr src (Cairo_paint c # es) =
     (if c = cr then [Layer src None] else []) @ render cr src es"
| "render cr src (_ # es) = render cr src es"

fun is_window_layer :: "layer \<Rightarrow> bool" where
  "is_window_layer (Layer (SourceWindow _ _ _) _) = True"
| "is_window_layer _ = False"

text \<open>The events that read, create, release or assign a background surface.\<close>

fun uses_surface :: "event \<Rightarrow> bool" where
  "uses_surface (Store_bg _ _) = True"
| "uses_surface (Cairo_set_source_surface _ _ _ _) = True"
| "uses_surface (Cairo_paint_with_alpha _ _) = True"
| "uses_surface (Cairo_surface_destroy _) = True"
| "uses_surface (Cairo_xlib_surface_create _ _ _ _ _ _) = True"
| "uses_surface (Gdk_cairo_surface_create_from_pixbuf _ _ _ _) = True"
| "uses_surface _ = False"

text \<open>
  \<open>guarded info held es\<close>: every event of \<open>es\<close> that uses a surface happens while the mutex
  of the instance \<open>info\<close> is held; \<open>held\<close> says whether it is held at the start.
\<close>

fun guarded :: "ptr \<Rightarrow> bool \<Rightarrow> event list \<Rightarrow> bool" where
  "guarded info held [] = True"
| "guarded info held (e # es) =
     (if e = G_mutex_lock info then guarded info True es
      else if e = G_mutex_unlock info then guarded info False es
      else (if uses_surface e then held else True) \<and> guarded info held es)"

fun is_invalidate :: "event \<Rightarrow> bool" where
  "is_invalidate (Gdk_window_invalidate_rect _ _ _) = True"
| "is_invalidate _ = False"

fun is_surface_create :: "event \<Rightarrow> bool" where
  "is_surface_create (Cairo_xlib_surface_create _ _ _ _ _ _) = True"
| "is_surface_create (Gdk_cairo_surface_create_from_pixbuf _ _ _ _) = True"
| "is_surface_create _ = False"

fun is_surface_destroy :: "event \<Rightarrow> bool" where
  "is_surface_destroy (Cairo_surface_destroy _) = True"
| "is_surface_destroy _ = False"

text \<open>
  The events of a redraw that only draw: a cairo call on the context \<open>cr\<close>, taking or
  giving back the mutex of \<open>info\<close>, or freeing the list of children.
\<close>

fun draws_into :: "ptr \<Rightarrow> ptr \<Rightarrow> event \<Rightarrow> bool" where
  "draws_into cr info (Cairo_set_source_surface c _ _ _) = (c = cr)"
| "draws_into cr info (Cairo_paint_with_alpha c _) = (c = cr)"
| "draws_into cr info (Gdk_cairo_set_source_window c _ _ _) = (c = cr)"
| "draws_into cr info (Cairo_paint c) = (c = cr)"
| "draws_into cr info (G_mutex_lock m) = (m = info)"
| "draws_into cr info (G_mutex_unlock m) = (m = info)"
| "draws_into cr info (G_list_free _) = True"
| "draws_into cr info _ = False"

text \<open>What a redraw returns and the events it adds.\<close>

definition redraw :: "gtk \<Rightarrow> ptr \<Rightarrow> ptr \<Rightarrow> ptr \<Rightarrow> world \<Rightarrow> (bool \<times> event list) option" where
  "redraw env w cr info s =
     map_option (\<lambda>(handled, s'). (handled, since s s'))
       (background_info_draw_callback env w cr info s)"

text \<open>The events that the loop over the children adds.\<close>

definition child_events :: "gtk \<Rightarrow> ptr \<Rightarrow> ptr list \<Rightarrow> event list" where
  "child_events env cr l =
     concat (map (\<lambda>child. if gtk_widget_get_visible env child
                          then [Gdk_cairo_set_source_window cr (gtk_widget_get_window env child) 0 0,
                                Cairo_paint cr]
                          else []) l)"

section \<open>A concrete toolkit and world\<close>

text \<open>
  A container (widget 10) with three children, of which widget 12 is hidden; the window
  of widget \<open>w\<close> is \<open>w + 100\<close>. Every drawable but \<open>0xFFFFFFFF\<close> is a 100 by 50 window,
  and \<open>bg.png\<close> is the one image file that decodes. The world holds one instance, at
  address 1, that owns the surface at address 1 and paints it half transparent.
\<close>

definition example_gtk :: gtk where
  "example_gtk =
     \<lparr>gdk_x11_get_default_xdisplay = 7,
      gdk_x11_visual_get_xvisual = 8,
      XGetGeometry = (\<lambda>d. if d = 0xFFFFFFFF then None else Some (100, 50)),
      image_file =
        (\<lambda>f. if f = ''bg.png'' then Inr (Pixbuf 100 50) else Inl ''Failed to open file''),
      gtk_container_get_children = (\<lambda>w. [11, 12, 13]),
      gtk_widget_get_visible = (\<lambda>c. c \<noteq> 12),
      gtk_widget_get_window = (\<lambda>w. w + 100)\<rparr>"

definition example_info :: BackgroundInfo where
  "example_info = \<lparr>container = 10, bg = 1, alpha = 1 / 2\<rparr>"

definition example_world :: world where
  "example_world =
     \<lparr>infos = [Some example_info],
      surfaces = [Some (PixbufSurface (Pixbuf 64 64) 1 110)],
      pixbufs = [None],
      trace = []\<rparr>"

text \<open>The world before anything has been allocated.\<close>

definition initial_world :: world where
  "initial_world = \<lparr>infos = [], surfaces = [], pixbufs = [], trace = []\<rparr>"

section \<open>Heaps and traces\<close>

text \<open>
  Reading a heap after an update: a store changes the cell it writes and no other, a
  release empties its cell, and an allocation takes the first address past the end, which
  held nothing before.
\<close>

lemma emit_simps [simp]:
  "infos (emit e s) = infos s" "surfaces (emit e s) = surfaces s"
  "pixbufs (emit e s) = pixbufs s" "trace (emit e s) = trace s @ [e]"
  by (simp_all add: emit_def)

lemma heap_get_NULL [simp]: "heap_get h NULL = None"
  by (simp add: heap_get_def)

lemma Suc_not_NULL [simp]: "Suc n \<noteq> NULL" "NULL \<noteq> Suc n"
  by (simp_all add: NULL_def)

lemma heap_get_set:
  "heap_get h p = Some x \<Longrightarrow> heap_get (heap_set h p v) q = (if q = p then Some v else heap_get h q)"
  by (auto simp: heap_get_def heap_set_def NULL_def nth_list_update split: if_splits)

lemma heap_set_same: "heap_get h p = Some v \<Longrightarrow> heap_set h p v = h"
proof -
  assume a: "heap_get h p = Some v"
  then have "h ! (p - 1) = Some v"
    by (simp add: heap_get_def split: if_splits)
  then have "h[p - 1 := Some v] = h"
    using list_update_id [of h "p - 1"] by simp
  then show ?thesis
    by (simp add: heap_set_def)
qed

lemma heap_get_free:
  "heap_get (heap_free h p) q = (if q = p then None else heap_get h q)"
  by (auto simp: heap_get_def heap_free_def NULL_def nth_list_update split: if_splits)

lemma heap_get_append:
  "heap_get (h @ [Some v]) q = (if q = Suc (length h) then Some v else heap_get h q)"
  by (auto simp: heap_get_def NULL_def nth_append split: if_splits)

lemma heap_get_fresh [simp]: "heap_get h (Suc (length h)) = None"
  by (simp add: heap_get_def)

lemma length_heap_set [simp]: "length (heap_set h p v) = length h"
  by (simp add: heap_set_def)

lemma length_heap_free [simp]: "length (heap_free h p) = length h"
  by (simp add: heap_free_def)

lemma heap_get_free_last:
  "heap_get (heap_free (h @ [x]) (Suc (length h))) q = heap_get h q"
  by (auto simp: heap_get_def heap_free_def NULL_def nth_append split: if_splits)

lemma example_live: "heap_get (infos example_world) 1 = Some example_info"
  by (simp add: example_world_def heap_get_def NULL_def)

lemma example_valid:
  "bg example_info = NULL \<or> heap_get (surfaces example_world) (bg example_info) \<noteq> None"
  by (simp add: example_world_def example_info_def heap_get_def NULL_def)

lemma example_surface:
  "heap_get (surfaces example_world) 1 = Some (PixbufSurface (Pixbuf 64 64) 1 110)"
  by (simp add: example_world_def heap_get_def NULL_def)

section \<open>What each function does\<close>

text \<open>The loop adds the events of the visible children, in list order, and nothing else.\<close>

lemma paint_children_trace:
  "paint_children env cr l s = s\<lparr>trace := trace s @ child_events env cr l\<rparr>"
  by (induction l arbitrary: s) (simp_all add: child_events_def emit_def)

lemma render_child_events:
  "render cr src (child_events env cr l @ [G_list_free l']) =
     map (\<lambda>child. Layer (SourceWindow (gtk_widget_get_window env child) 0 0) None)
       (filter (gtk_widget_get_visible env) l)"
  by (induction l arbitrary: src) (simp_all add: child_events_def)

lemma guarded_child_events:
  "guarded info held (child_events env cr l @ [G_list_free l'])"
  by (induction l) (simp_all add: child_events_def)

text \<open>
  On a live instance whose \<open>bg\<close> is null or a live surface the callback is defined, and
  all it does is add events.
\<close>

lemma draw_callback_eq:
  assumes "heap_get (infos s) info = Some i"
      and "bg i = NULL \<or> heap_get (surfaces s) (bg i) \<noteq> None"
  shows "background_info_draw_callback env w cr info s =
           Some (True, s\<lparr>trace := trace s @
             (if bg i \<noteq> NULL
              then [G_mutex_lock info, Cairo_set_source_surface cr (bg i) 0 0,
                    Cairo_paint_with_alpha cr (alpha i), G_mutex_unlock info]
              else []) @
             child_events env cr (gtk_container_get_children env w) @
             [G_list_free (gtk_container_get_children env w)]\<rparr>)"
  using assms
  by (cases "bg i = NULL")
     (auto simp: background_info_draw_callback_def cairo_set_source_surface_def
        paint_children_trace emit_def Let_def)

lemma render_draw_events:
  "render cr src
     ((if b \<noteq> NULL
       then [G_mutex_lock info, Cairo_set_source_surface cr b 0 0,
             Cairo_paint_with_alpha cr a, G_mutex_unlock info]
       else []) @ child_events env cr l @ [G_list_free l']) =
   (if b \<noteq> NULL then [Layer (SourceSurface b 0 0) (Some a)] else []) @
   map (\<lambda>child. Layer (SourceWindow (gtk_widget_get_window env child) 0 0) None)
     (filter (gtk_widget_get_visible env) l)"
  by (simp add: render_child_events)

lemma guarded_draw_events:
  "guarded info False
     ((if b \<noteq> NULL
       then [G_mutex_lock info, Cairo_set_source_surface cr b 0 0,
             Cairo_paint_with_alpha cr a, G_mutex_unlock info]
       else []) @ child_events env cr l @ [G_list_free l'])"
  by (simp add: guarded_child_events)

lemma draws_into_child_events:
  "list_all (draws_into cr info) (child_events env cr l)"
  by (induction l) (simp_all add: child_events_def)

text \<open>
  \<open>create_background_info\<close> is defined in every world. The instance it returns has
  \<open>alpha = 1\<close>; \<open>bg\<close> and \<open>container\<close> are \<open>NULL\<close>, as \<open>g_new0\<close> left them: the function
  connects the callback to its \<open>container\<close> argument and does not store the argument in
  the instance.
\<close>

lemma create_eq:
  "create_background_info env container' child s =
     Some (Suc (length (infos s)),
           s\<lparr>infos := infos s @ [Some \<lparr>container = NULL, bg = NULL, alpha = 1\<rparr>],
             trace := trace s @
               [G_message ''create_background_info'' [],
                G_new0 (Suc (length (infos s))),
                G_mutex_init (Suc (length (infos s))),
                Store_alpha (Suc (length (infos s))) 1,
                Gtk_widget_realize child,
                Gdk_window_set_composited (gtk_widget_get_window env child) True,
                G_signal_connect container' ''draw'' (Suc (length (infos s))),
                Gtk_widget_realize container',
                Gdk_window_set_background_rgba (gtk_widget_get_window env container')
                  (0, 0, 0, 0)]\<rparr>)"
  by (simp add: create_background_info_def g_new0_def heap_new_def store_alpha_def emit_def
      heap_get_append heap_set_def Let_def)

lemma change_alpha_eq:
  assumes "heap_get (infos s) info = Some i"
  shows "background_info_change_alpha env info a s =
           Some (s\<lparr>infos := heap_set (infos s) info (i\<lparr>alpha := a\<rparr>),
                   trace := trace s @
                     [Store_alpha info a,
                      Gdk_window_invalidate_rect (gtk_widget_get_window env (container i))
                        None False]\<rparr>)"
  using assms
  by (simp add: background_info_change_alpha_def store_alpha_def emit_def heap_get_set)

lemma redraw_eq:
  assumes "heap_get (infos s) info = Some i"
      and "bg i = NULL \<or> heap_get (surfaces s) (bg i) \<noteq> None"
  shows "redraw env w cr info s =
           Some (True,
             (if bg i \<noteq> NULL
              then [G_mutex_lock info, Cairo_set_source_surface cr (bg i) 0 0,
                    Cairo_paint_with_alpha cr (alpha i), G_mutex_unlock info]
              else []) @
             child_events env cr (gtk_container_get_children env w) @
             [G_list_free (gtk_container_get_children env w)])"
  unfolding redraw_def draw_callback_eq [OF assms]
  by (simp add: since_def)

text \<open>
  The success branch of \<open>background_info_set_background_by_drawable\<close> on a live instance
  whose \<open>bg\<close> is null or a live surface: the mutex is taken, the previous surface (if any)
  is released, a surface backed by the drawable with the queried width and height is
  created at a fresh address and stored in \<open>bg\<close>, the mutex is given back, and last the
  call asks for the window of whatever widget the field \<open>container\<close> holds to be
  invalidated (rectangle \<open>NULL\<close>). Every event that uses a surface happens while the mutex
  is held.
\<close>

lemma set_background_by_drawable_eq:
  assumes "XGetGeometry env drawable = Some (width, height)"
      and "heap_get (infos s) info = Some i"
      and "bg i = NULL \<or> heap_get (surfaces s) (bg i) \<noteq> None"
  shows "\<exists>p s'. background_info_set_background_by_drawable env info drawable s = Some s'
          \<and> p \<noteq> NULL
          \<and> heap_get (surfaces s) p = None
          \<and> heap_get (infos s') info = Some (i\<lparr>bg := p\<rparr>)
          \<and> heap_get (surfaces s') p =
                Some (XlibSurface (gdk_x11_get_default_xdisplay env) drawable
                        (gdk_x11_visual_get_xvisual env) width height)
          \<and> (if bg i \<noteq> NULL then heap_get (surfaces s') (bg i) = None else True)
          \<and> trace s' = trace s @
                [G_mutex_lock info] @
                (if bg i \<noteq> NULL then [Cairo_surface_destroy (bg i), Store_bg info NULL] else []) @
                [Cairo_xlib_surface_create (gdk_x11_get_default_xdisplay env) drawable
                   (gdk_x11_visual_get_xvisual env) width height p,
                 Store_bg info p, G_mutex_unlock info,
                 Gdk_window_invalidate_rect (gtk_widget_get_window env (container i)) None False]
          \<and> guarded info False (since s s')"
  using assms
  by (cases "bg i = NULL")
     (auto simp: background_info_set_background_by_drawable_def store_bg_def
        cairo_surface_destroy_def cairo_xlib_surface_create_def heap_new_def since_def
        heap_get_set heap_get_free heap_get_append Let_def)

text \<open>
  The success branch of \<open>background_info_set_background_by_file\<close>, likewise: one surface
  is created from the decoded image, for the window of the widget in the field
  \<open>container\<close>, after the previous one (if any) has been released; the decoded image is
  released; the invalidation goes to the window of the widget in \<open>container\<close>.
\<close>

lemma set_background_by_file_eq:
  assumes "image_file env file = Inr img"
      and "heap_get (infos s) info = Some i"
      and "bg i = NULL \<or> heap_get (surfaces s) (bg i) \<noteq> None"
  shows "\<exists>pb p s'. background_info_set_background_by_file env info file s = Some s'
          \<and> p \<noteq> NULL
          \<and> heap_get (surfaces s) p = None
          \<and> heap_get (infos s') info = Some (i\<lparr>bg := p\<rparr>)
          \<and> heap_get (surfaces s') p =
                Some (PixbufSurface img 1 (gtk_widget_get_window env (container i)))
          \<and> (if bg i \<noteq> NULL then heap_get (surfaces s') (bg i) = None else True)
          \<and> heap_get (pixbufs s) pb = None
          \<and> heap_get (pixbufs s') pb = None
          \<and> trace s' = trace s @
                [G_message ''background_info_set_background_by_file:%s'' [ArgString file],
                 Gdk_pixbuf_new_from_file file pb,
                 G_mutex_lock info] @
                (if bg i \<noteq> NULL then [Cairo_surface_destroy (bg i), Store_bg info NULL] else []) @
                [Gdk_cairo_surface_create_from_pixbuf pb 1
                   (gtk_widget_get_window env (container i)) p,
                 Store_bg info p, G_mutex_unlock info, G_object_unref pb,
                 Gdk_window_invalidate_rect (gtk_widget_get_window env (container i)) None False]
          \<and> guarded info False (since s s')
          \<and> filter is_surface_create (since s s') =
                [Gdk_cairo_surface_create_from_pixbuf pb 1
                   (gtk_widget_get_window env (container i)) p]"
  using assms
  by (cases "bg i = NULL")
     (auto simp: background_info_set_background_by_file_def store_bg_def
        gdk_pixbuf_new_from_file_def gdk_cairo_surface_create_from_pixbuf_def g_object_unref_def
        cairo_surface_destroy_def heap_new_def since_def
        heap_get_set heap_get_free heap_get_append Let_def)

section \<open>Claims\<close>

subsection \<open>Setting the background from a drawable\<close>

text \<open>
  C1. When the geometry query for the drawable fails, \<open>background_info_set_background_by_drawable\<close>
  logs one warning and returns: for every instance pointer and every world, the heaps of
  instances, surfaces and pixbufs are the ones before the call (so \<open>bg\<close> and \<open>alpha\<close> of every
  instance are as before), the only new event is the warning, and no invalidation of a
  window is among the new events.
\<close>

theorem set_background_by_drawable_invalid_unchanged:
  assumes "XGetGeometry env drawable = None"
  shows "\<exists>s'. background_info_set_background_by_drawable env info drawable s = Some s'
          \<and> infos s' = infos s \<and> surfaces s' = surfaces s \<and> pixbufs s' = pixbufs s
          \<and> trace s' = trace s @
                [G_warning ''set_background_by_drawable invalid drawable %d \<newline>''
                   [ArgUInt drawable]]
          \<and> filter is_invalidate (since s s') = []"
  using assms
  by (simp add: background_info_set_background_by_drawable_def since_def)

theorem set_background_by_drawable_invalid_unchanged_witness:
  "XGetGeometry example_gtk 0xFFFFFFFF = None
   \<and> (\<exists>s'. background_info_set_background_by_drawable example_gtk 1 0xFFFFFFFF example_world
               = Some s'
          \<and> heap_get (infos s') 1 = Some example_info
          \<and> surfaces s' = surfaces example_world
          \<and> since example_world s' =
                [G_warning ''set_background_by_drawable invalid drawable %d \<newline>''
                   [ArgUInt 0xFFFFFFFF]]
          \<and> filter is_invalidate (since example_world s') = [])"
proof -
  have q: "XGetGeometry example_gtk 0xFFFFFFFF = None"
    by (simp add: example_gtk_def)
  from set_background_by_drawable_invalid_unchanged [OF q, of 1 example_world]
  obtain s' where
    "background_info_set_background_by_drawable example_gtk 1 0xFFFFFFFF example_world = Some s'"
    "infos s' = infos example_world" "surfaces s' = surfaces example_world"
    "trace s' = trace example_world @
       [G_warning ''set_background_by_drawable invalid drawable %d \<newline>''
          [ArgUInt 0xFFFFFFFF]]"
    "filter is_invalidate (since example_world s') = []"
    by blast
  then show ?thesis
    using q example_live by (simp add: since_def)
qed

text \<open>
  C3. The claim: when the geometry query succeeds the call releases the previous surface
  under the lock, installs a surface of the queried width and height, and then requests
  full invalidation of the container's window. The surface part holds
  (\<open>set_background_by_drawable_eq\<close>). The invalidation does not reach the container's
  window on an instance that \<open>create_background_info\<close> returned: \<open>create_background_info\<close>
  does not store its \<open>container\<close> argument and no other function writes the field, so the
  field is still \<open>NULL\<close> and the one invalidation of the call is for the window of the
  \<open>NULL\<close> widget. Whenever that differs from the window of the container, the
  container's window is not invalidated.
\<close>

theorem create_then_set_background_by_drawable_invalidates_null_window:
  assumes "XGetGeometry env drawable = Some (width, height)"
      and "gtk_widget_get_window env container' \<noteq> gtk_widget_get_window env NULL"
  shows "\<exists>info s1 s2 p.
           create_background_info env container' child s = Some (info, s1)
         \<and> background_info_set_background_by_drawable env info drawable s1 = Some s2
         \<and> heap_get (infos s2) info = Some \<lparr>container = NULL, bg = p, alpha = 1\<rparr>
         \<and> heap_get (surfaces s2) p =
               Some (XlibSurface (gdk_x11_get_default_xdisplay env) drawable
                       (gdk_x11_visual_get_xvisual env) width height)
         \<and> filter is_invalidate (since s s2) =
               [Gdk_window_invalidate_rect (gtk_widget_get_window env NULL) None False]
         \<and> Gdk_window_invalidate_rect (gtk_widget_get_window env container') None False
               \<notin> set (since s s2)"
  unfolding create_eq
  using assms
  by (simp add: background_info_set_background_by_drawable_def store_bg_def
      cairo_xlib_surface_create_def heap_new_def since_def
      heap_get_set heap_get_append heap_set_def Let_def)

theorem create_then_set_background_by_drawable_invalidates_null_window_witness:
  "XGetGeometry example_gtk 5 = Some (100, 50)
   \<and> gtk_widget_get_window example_gtk 10 = 110
   \<and> gtk_widget_get_window example_gtk NULL = 100
   \<and> (\<exists>info s1 s2 p.
           create_background_info example_gtk 10 11 initial_world = Some (info, s1)
         \<and> background_info_set_background_by_drawable example_gtk info 5 s1 = Some s2
         \<and> heap_get (infos s2) info = Some \<lparr>container = NULL, bg = p, alpha = 1\<rparr>
         \<and> heap_get (surfaces s2) p = Some (XlibSurface 7 5 8 100 50)
         \<and> filter is_invalidate (since initial_world s2) =
               [Gdk_window_invalidate_rect 100 None False]
         \<and> Gdk_window_invalidate_rect 110 None False \<notin> set (since initial_world s2))"
proof -
  have q: "XGetGeometry example_gtk 5 = Some (100, 50)"
    by (simp add: example_gtk_def)
  have w: "gtk_widget_get_window example_gtk 10 = 110"
          "gtk_widget_get_window example_gtk NULL = 100"
    by (simp_all add: example_gtk_def NULL_def)
  have d: "gtk_widget_get_window example_gtk 10 \<noteq> gtk_widget_get_window example_gtk NULL"
    using w by simp
  from create_then_set_background_by_drawable_invalidates_null_window
         [OF q d, of 11 initial_world]
  obtain info s1 s2 p where
    "create_background_info example_gtk 10 11 initial_world = Some (info, s1)"
    "background_info_set_background_by_drawable example_gtk info 5 s1 = Some s2"
    "heap_get (infos s2) info = Some \<lparr>container = NULL, bg = p, alpha = 1\<rparr>"
    "heap_get (surfaces s2) p =
       Some (XlibSurface (gdk_x11_get_default_xdisplay example_gtk) 5
               (gdk_x11_visual_get_xvisual example_gtk) 100 50)"
    "filter is_invalidate (since initial_world s2) =
       [Gdk_window_invalidate_rect (gtk_widget_get_window example_gtk NULL) None False]"
    "Gdk_window_invalidate_rect (gtk_widget_get_window example_gtk 10) None False
       \<notin> set (since initial_world s2)"
    by blast
  then have
    "create_background_info example_gtk 10 11 initial_world = Some (info, s1)
     \<and> background_info_set_background_by_drawable example_gtk info 5 s1 = Some s2
     \<and> heap_get (infos s2) info = Some \<lparr>container = NULL, bg = p, alpha = 1\<rparr>
     \<and> heap_get (surfaces s2) p = Some (XlibSurface 7 5 8 100 50)
     \<and> filter is_invalidate (since initial_world s2) =
           [Gdk_window_invalidate_rect 100 None False]
     \<and> Gdk_window_invalidate_rect 110 None False \<notin> set (since initial_world s2)"
    using w by (simp add: example_gtk_def)
  then show ?thesis
    using q w by blast
qed

subsection \<open>Setting the background from a file\<close>

text \<open>
  C4. When the image at the path does not decode, \<open>background_info_set_background_by_file\<close>
  logs a warning whose argument is the message of the decoder's error, frees the error and
  returns: for every instance pointer and every world, the heaps of instances, surfaces
  and pixbufs are the ones before the call and no invalidation of a window is among the
  new events. The function returns nothing but the world: the failure is reported in the
  log only.
\<close>

theorem set_background_by_file_decode_failure_unchanged:
  assumes "image_file env file = Inl message"
  shows "\<exists>s'. background_info_set_background_by_file env info file s = Some s'
          \<and> infos s' = infos s \<and> surfaces s' = surfaces s \<and> pixbufs s' = pixbufs s
          \<and> trace s' = trace s @
                [G_message ''background_info_set_background_by_file:%s'' [ArgString file],
                 Gdk_pixbuf_new_from_file file NULL,
                 G_warning ''set_background_by_file failed: %s\<newline>'' [ArgString message],
                 G_error_free message]
          \<and> filter is_invalidate (since s s') = []"
  using assms
  by (simp add: background_info_set_background_by_file_def gdk_pixbuf_new_from_file_def since_def)

theorem set_background_by_file_decode_failure_unchanged_witness:
  "image_file example_gtk ''missing.png'' = Inl ''Failed to open file''
   \<and> (\<exists>s'. background_info_set_background_by_file example_gtk 1 ''missing.png'' example_world
               = Some s'
          \<and> heap_get (infos s') 1 = Some example_info
          \<and> surfaces s' = surfaces example_world
          \<and> since example_world s' =
                [G_message ''background_info_set_background_by_file:%s''
                   [ArgString ''missing.png''],
                 Gdk_pixbuf_new_from_file ''missing.png'' NULL,
                 G_warning ''set_background_by_file failed: %s\<newline>''
                   [ArgString ''Failed to open file''],
                 G_error_free ''Failed to open file'']
          \<and> filter is_invalidate (since example_world s') = [])"
proof -
  have q: "image_file example_gtk ''missing.png'' = Inl ''Failed to open file''"
    by (simp add: example_gtk_def)
  from set_background_by_file_decode_failure_unchanged [OF q, of 1 example_world]
  obtain s' where
    "background_info_set_background_by_file example_gtk 1 ''missing.png'' example_world = Some s'"
    "infos s' = infos example_world" "surfaces s' = surfaces example_world"
    "trace s' = trace example_world @
       [G_message ''background_info_set_background_by_file:%s'' [ArgString ''missing.png''],
        Gdk_pixbuf_new_from_file ''missing.png'' NULL,
        G_warning ''set_background_by_file failed: %s\<newline>''
          [ArgString ''Failed to open file''],
        G_error_free ''Failed to open file'']"
    "filter is_invalidate (since example_world s') = []"
    by blast
  then show ?thesis
    using q example_live by (simp add: since_def)
qed

text \<open>
  C5. The claim: for a file that decodes, one call replaces the surface once, under the
  lock, releases the decoded image, invalidates the container's window and leaves \<open>bg\<close>
  not null. The surface part holds (\<open>set_background_by_file_eq\<close>). The rest does not on an
  instance that \<open>create_background_info\<close> returned, for the reason given at C3: the field
  \<open>container\<close> is still \<open>NULL\<close>, so the surface is created for the window of the \<open>NULL\<close>
  widget and the one invalidation of the call is for that window. Whenever that differs
  from the window of the container, the container's window is not invalidated.
\<close>

theorem create_then_set_background_by_file_invalidates_null_window:
  assumes "image_file env file = Inr img"
      and "gtk_widget_get_window env container' \<noteq> gtk_widget_get_window env NULL"
  shows "\<exists>info s1 s2 p.
           create_background_info env container' child s = Some (info, s1)
         \<and> background_info_set_background_by_file env info file s1 = Some s2
         \<and> heap_get (infos s2) info = Some \<lparr>container = NULL, bg = p, alpha = 1\<rparr>
         \<and> p \<noteq> NULL
         \<and> heap_get (surfaces s2) p =
               Some (PixbufSurface img 1 (gtk_widget_get_window env NULL))
         \<and> filter is_invalidate (since s s2) =
               [Gdk_window_invalidate_rect (gtk_widget_get_window env NULL) None False]
         \<and> Gdk_window_invalidate_rect (gtk_widget_get_window env container') None False
               \<notin> set (since s s2)"
  unfolding create_eq
  using assms
  by (simp add: background_info_set_background_by_file_def store_bg_def
      gdk_pixbuf_new_from_file_def gdk_cairo_surface_create_from_pixbuf_def g_object_unref_def
      heap_new_def since_def heap_get_set heap_get_free heap_get_append heap_set_def Let_def)

theorem create_then_set_background_by_file_invalidates_null_window_witness:
  "image_file example_gtk ''bg.png'' = Inr (Pixbuf 100 50)
   \<and> gtk_widget_get_window example_gtk 10 = 110
   \<and> gtk_widget_get_window example_gtk NULL = 100
   \<and> (\<exists>info s1 s2 p.
           create_background_info example_gtk 10 11 initial_world = Some (info, s1)
         \<and> background_info_set_background_by_file example_gtk info ''bg.png'' s1 = Some s2
         \<and> heap_get (infos s2) info = Some \<lparr>container = NULL, bg = p, alpha = 1\<rparr>
         \<and> heap_get (surfaces s2) p = Some (PixbufSurface (Pixbuf 100 50) 1 100)
         \<and> filter is_invalidate (since initial_world s2) =
               [Gdk_window_invalidate_rect 100 None False]
         \<and> Gdk_window_invalidate_rect 110 None False \<notin> set (since initial_world s2))"
proof -
  have q: "image_file example_gtk ''bg.png'' = Inr (Pixbuf 100 50)"
    by (simp add: example_gtk_def)
  have w: "gtk_widget_get_window example_gtk 10 = 110"
          "gtk_widget_get_window example_gtk NULL = 100"
    by (simp_all add: example_gtk_def NULL_def)
  have d: "gtk_widget_get_window example_gtk 10 \<noteq> gtk_widget_get_window example_gtk NULL"
    using w by simp
  from create_then_set_background_by_file_invalidates_null_window
         [OF q d, of 11 initial_world]
  obtain info s1 s2 p where
    "create_background_info example_gtk 10 11 initial_world = Some (info, s1)"
    "background_info_set_background_by_file example_gtk info ''bg.png'' s1 = Some s2"
    "heap_get (infos s2) info = Some \<lparr>container = NULL, bg = p, alpha = 1\<rparr>"
    "heap_get (surfaces s2) p =
       Some (PixbufSurface (Pixbuf 100 50) 1 (gtk_widget_get_window example_gtk NULL))"
    "filter is_invalidate (since initial_world s2) =
       [Gdk_window_invalidate_rect (gtk_widget_get_window example_gtk NULL) None False]"
    "Gdk_window_invalidate_rect (gtk_widget_get_window example_gtk 10) None False
       \<notin> set (since initial_world s2)"
    by blast
  then have
    "create_background_info example_gtk 10 11 initial_world = Some (info, s1)
     \<and> background_info_set_background_by_file example_gtk info ''bg.png'' s1 = Some s2
     \<and> heap_get (infos s2) info = Some \<lparr>container = NULL, bg = p, alpha = 1\<rparr>
     \<and> heap_get (surfaces s2) p = Some (PixbufSurface (Pixbuf 100 50) 1 100)
     \<and> filter is_invalidate (since initial_world s2) =
           [Gdk_window_invalidate_rect 100 None False]
     \<and> Gdk_window_invalidate_rect 110 None False \<notin> set (since initial_world s2)"
    using w by simp
  then show ?thesis
    using q w by blast
qed

subsection \<open>The redraw callback\<close>

text \<open>
  C2. For every redraw on a live instance whose \<open>bg\<close> is null or a live surface, the
  callback returns \<open>TRUE\<close>, whether or not there is a surface. What it paints into the
  context is: first, if \<open>bg\<close> is not null, the surface at origin (0, 0) through the alpha
  mask \<open>alpha\<close>; then, for each visible child of the container, in the order of the
  container's list, the child's window at origin (0, 0); hidden children are skipped. The
  surface is painted while the mutex is held.
\<close>

theorem draw_callback_paints_background_then_children:
  assumes "heap_get (infos s) info = Some i"
      and "bg i = NULL \<or> heap_get (surfaces s) (bg i) \<noteq> None"
  shows "\<exists>s'. background_info_draw_callback env w cr info s = Some (True, s')
          \<and> trace s' = trace s @ since s s'
          \<and> render cr src (since s s') =
                (if bg i \<noteq> NULL then [Layer (SourceSurface (bg i) 0 0) (Some (alpha i))] else []) @
                map (\<lambda>child. Layer (SourceWindow (gtk_widget_get_window env child) 0 0) None)
                  (filter (gtk_widget_get_visible env) (gtk_container_get_children env w))
          \<and> guarded info False (since s s')"
  unfolding draw_callback_eq [OF assms]
  by (simp add: since_def render_draw_events guarded_draw_events del: append_assoc)

theorem draw_callback_paints_background_then_children_witness:
  "heap_get (infos example_world) 1 = Some example_info
   \<and> heap_get (surfaces example_world) 1 = Some (PixbufSurface (Pixbuf 64 64) 1 110)
   \<and> (\<exists>s'. background_info_draw_callback example_gtk 10 99 1 example_world = Some (True, s')
          \<and> render 99 SourceInitial (since example_world s') =
                [Layer (SourceSurface 1 0 0) (Some (1 / 2)),
                 Layer (SourceWindow 111 0 0) None,
                 Layer (SourceWindow 113 0 0) None]
          \<and> guarded 1 False (since example_world s'))"
  using draw_callback_paints_background_then_children
          [OF example_live example_valid, of example_gtk 10 99 SourceInitial]
        example_live example_surface
  by (auto simp: example_gtk_def example_info_def NULL_def)

text \<open>
  C9. The redraw callback does not change any instance: for every redraw on a live
  instance whose \<open>bg\<close> is null or a live surface, the heaps of instances, surfaces and
  pixbufs after the call are the ones before it, so \<open>bg\<close> and \<open>alpha\<close> are the same, and
  every event it adds is a drawing call on the context it was given, taking or giving
  back the instance's mutex, or freeing the list of children.
\<close>

theorem draw_callback_state_unchanged:
  assumes "heap_get (infos s) info = Some i"
      and "bg i = NULL \<or> heap_get (surfaces s) (bg i) \<noteq> None"
  shows "\<exists>handled s'. background_info_draw_callback env w cr info s = Some (handled, s')
          \<and> heap_get (infos s') info = Some i
          \<and> infos s' = infos s \<and> surfaces s' = surfaces s \<and> pixbufs s' = pixbufs s
          \<and> trace s' = trace s @ since s s'
          \<and> list_all (draws_into cr info) (since s s')"
  unfolding draw_callback_eq [OF assms]
  using assms(1) by (auto simp: since_def draws_into_child_events)

theorem draw_callback_state_unchanged_witness:
  "heap_get (infos example_world) 1 = Some example_info
   \<and> heap_get (surfaces example_world) 1 = Some (PixbufSurface (Pixbuf 64 64) 1 110)
   \<and> (\<exists>handled s'. background_info_draw_callback example_gtk 10 99 1 example_world
                     = Some (handled, s')
          \<and> heap_get (infos s') 1 = Some \<lparr>container = 10, bg = 1, alpha = 1 / 2\<rparr>
          \<and> surfaces s' = surfaces example_world
          \<and> list_all (draws_into 99 1) (since example_world s'))"
  using draw_callback_state_unchanged [OF example_live example_valid, of example_gtk 10 99]
        example_live example_surface
  by (auto simp: example_info_def)

text \<open>
  C10. In the redraw callback \<open>alpha\<close> reaches the background surface only. Among the layers
  a redraw paints, the layers whose source is a window are exactly the windows of the
  visible children, each painted by a plain \<open>cairo_paint\<close> (no alpha mask), whatever the
  value of \<open>alpha\<close>; the only other layer is the background surface, painted through the
  mask \<open>alpha\<close>, when \<open>bg\<close> is not null.
\<close>

theorem draw_callback_children_painted_opaque:
  assumes "heap_get (infos s) info = Some i"
      and "bg i = NULL \<or> heap_get (surfaces s) (bg i) \<noteq> None"
  shows "\<exists>s'. background_info_draw_callback env w cr info s = Some (True, s')
          \<and> filter is_window_layer (render cr src (since s s')) =
                map (\<lambda>child. Layer (SourceWindow (gtk_widget_get_window env child) 0 0) None)
                  (filter (gtk_widget_get_visible env) (gtk_container_get_children env w))
          \<and> filter (\<lambda>l. \<not> is_window_layer l) (render cr src (since s s')) =
                (if bg i \<noteq> NULL then [Layer (SourceSurface (bg i) 0 0) (Some (alpha i))] else [])"
  unfolding draw_callback_eq [OF assms]
  by (simp add: since_def render_draw_events filter_map comp_def del: append_assoc)

theorem draw_callback_children_painted_opaque_witness:
  "heap_get (infos example_world) 1 = Some example_info
   \<and> heap_get (surfaces example_world) 1 = Some (PixbufSurface (Pixbuf 64 64) 1 110)
   \<and> (\<exists>s'. background_info_draw_callback example_gtk 10 99 1 example_world = Some (True, s')
          \<and> filter is_window_layer (render 99 SourceInitial (since example_world s')) =
                [Layer (SourceWindow 111 0 0) None, Layer (SourceWindow 113 0 0) None]
          \<and> filter (\<lambda>l. \<not> is_window_layer l) (render 99 SourceInitial (since example_world s')) =
                [Layer (SourceSurface 1 0 0) (Some (1 / 2))])"
  using draw_callback_children_painted_opaque
          [OF example_live example_valid, of example_gtk 10 99 SourceInitial]
        example_live example_surface
  by (auto simp: example_gtk_def example_info_def NULL_def)

subsection \<open>Creating an instance\<close>

text \<open>
  C7. \<open>create_background_info\<close> always returns, and returns a newly allocated instance:
  the pointer is not null and was not a live instance before the call, \<open>g_new0\<close> is among
  the events of the call, the instance has \<open>alpha = 1\<close> and \<open>bg = NULL\<close>, and every other
  instance is as before.
\<close>

theorem create_background_info_initial_state:
  "\<exists>info s' i. create_background_info env container' child s = Some (info, s')
     \<and> info \<noteq> NULL
     \<and> heap_get (infos s) info = None
     \<and> heap_get (infos s') info = Some i
     \<and> alpha i = 1 \<and> bg i = NULL
     \<and> G_new0 info \<in> set (since s s')
     \<and> (\<forall>q. q \<noteq> info \<longrightarrow> heap_get (infos s') q = heap_get (infos s) q)"
  unfolding create_eq
  by (simp add: since_def heap_get_append)

theorem create_background_info_initial_state_witness:
  "\<exists>info s' i. create_background_info example_gtk 10 11 example_world = Some (info, s')
     \<and> info \<noteq> NULL
     \<and> heap_get (infos example_world) info = None
     \<and> heap_get (infos s') info = Some i
     \<and> alpha i = 1 \<and> bg i = NULL
     \<and> heap_get (infos s') 1 = Some example_info"
proof -
  from create_background_info_initial_state [of example_gtk 10 11 example_world]
  obtain info s' i where c:
    "create_background_info example_gtk 10 11 example_world = Some (info, s')"
    "info \<noteq> NULL" "heap_get (infos example_world) info = None"
    "heap_get (infos s') info = Some i" "alpha i = 1" "bg i = NULL"
    "\<forall>q. q \<noteq> info \<longrightarrow> heap_get (infos s') q = heap_get (infos example_world) q"
    by blast
  have "info \<noteq> 1"
    using c(3) example_live by auto
  then have "heap_get (infos s') 1 = Some example_info"
    using c(7) example_live by simp
  then show ?thesis
    using c by blast
qed

subsection \<open>Changing the alpha\<close>

text \<open>
  C8. For every live instance whose \<open>bg\<close> is null or a live surface and every alpha value,
  calling \<open>background_info_change_alpha\<close> a second time with the same value leaves the
  heaps of instances, surfaces and pixbufs as the first call left them, and the redraw
  that follows returns the same value and adds the same drawing events as the redraw
  after one call; that redraw is defined.
\<close>

theorem change_alpha_idempotent:
  assumes "heap_get (infos s) info = Some i"
      and "bg i = NULL \<or> heap_get (surfaces s) (bg i) \<noteq> None"
  shows "\<exists>s1 s2. background_info_change_alpha env info a s = Some s1
          \<and> background_info_change_alpha env info a s1 = Some s2
          \<and> heap_get (infos s1) info = Some (i\<lparr>alpha := a\<rparr>)
          \<and> infos s2 = infos s1 \<and> surfaces s2 = surfaces s1 \<and> pixbufs s2 = pixbufs s1
          \<and> redraw env w cr info s2 = redraw env w cr info s1
          \<and> redraw env w cr info s1 \<noteq> None"
proof -
  let ?i1 = "i\<lparr>alpha := a\<rparr>"
  obtain s1 where s1: "background_info_change_alpha env info a s = Some s1"
    and i1: "heap_get (infos s1) info = Some ?i1" and sf1: "surfaces s1 = surfaces s"
    using change_alpha_eq [OF assms(1), of env a] assms(1) by (simp add: heap_get_set)
  obtain s2 where s2: "background_info_change_alpha env info a s1 = Some s2"
    and i2: "infos s2 = infos s1" and sf2: "surfaces s2 = surfaces s1"
    and pb2: "pixbufs s2 = pixbufs s1"
    using change_alpha_eq [OF i1, of env a] by (simp add: heap_set_same [OF i1])
  have v1: "bg ?i1 = NULL \<or> heap_get (surfaces s1) (bg ?i1) \<noteq> None"
    using assms(2) sf1 by simp
  have v2: "bg ?i1 = NULL \<or> heap_get (surfaces s2) (bg ?i1) \<noteq> None"
    using v1 sf2 by simp
  have i2': "heap_get (infos s2) info = Some ?i1"
    using i1 i2 by simp
  have "redraw env w cr info s2 = redraw env w cr info s1"
    by (simp add: redraw_eq [OF i1 v1] redraw_eq [OF i2' v2])
  moreover have "redraw env w cr info s1 \<noteq> None"
    by (simp add: redraw_eq [OF i1 v1])
  ultimately show ?thesis
    using s1 s2 i1 i2 sf2 pb2 by simp
qed

theorem change_alpha_idempotent_witness:
  "heap_get (infos example_world) 1 = Some example_info
   \<and> heap_get (surfaces example_world) 1 = Some (PixbufSurface (Pixbuf 64 64) 1 110)
   \<and> (\<exists>s1 s2. background_info_change_alpha example_gtk 1 (1 / 4) example_world = Some s1
          \<and> background_info_change_alpha example_gtk 1 (1 / 4) s1 = Some s2
          \<and> heap_get (infos s1) 1 = Some \<lparr>container = 10, bg = 1, alpha = 1 / 4\<rparr>
          \<and> infos s2 = infos s1
          \<and> redraw example_gtk 10 99 1 s2 = redraw example_gtk 10 99 1 s1
          \<and> redraw example_gtk 10 99 1 s1 \<noteq> None)"
  using change_alpha_idempotent
          [OF example_live example_valid, of example_gtk "1 / 4" 10 99]
        example_live example_surface
  by (auto simp: example_info_def)

subsection \<open>Create, set the background from a file, destroy\<close>

text \<open>
  C6. For a file that decodes, the sequence \<open>create_background_info\<close>,
  \<open>background_info_set_background_by_file\<close>, \<open>background_info_clear\<close> is defined from every
  world (no released surface is released again), and over the whole sequence exactly one
  surface is created and exactly one is released, the same one: it was not live before
  the sequence, it is live after the setter and released after the destroy, and every
  other surface is as it was.
\<close>

theorem create_set_file_clear_releases_one_surface:
  assumes "image_file env file = Inr img"
  shows "\<exists>info s1 s2 s3 pb win p.
           create_background_info env container' child s = Some (info, s1)
         \<and> background_info_set_background_by_file env info file s1 = Some s2
         \<and> background_info_clear info s2 = Some s3
         \<and> trace s3 = trace s @ since s s3
         \<and> filter is_surface_create (since s s3) =
               [Gdk_cairo_surface_create_from_pixbuf pb 1 win p]
         \<and> filter is_surface_destroy (since s s3) = [Cairo_surface_destroy p]
         \<and> heap_get (surfaces s) p = None
         \<and> heap_get (surfaces s2) p = Some (PixbufSurface img 1 win)
         \<and> heap_get (surfaces s3) p = None
         \<and> (\<forall>q. heap_get (surfaces s3) q = heap_get (surfaces s) q)"
  unfolding create_eq
  using assms
  by (simp add: background_info_set_background_by_file_def store_bg_def
      gdk_pixbuf_new_from_file_def gdk_cairo_surface_create_from_pixbuf_def g_object_unref_def
      cairo_surface_destroy_def heap_new_def since_def background_info_clear_def g_free_def
      heap_get_set heap_get_free heap_get_append heap_get_free_last Let_def)

theorem create_set_file_clear_releases_one_surface_witness:
  "image_file example_gtk ''bg.png'' = Inr (Pixbuf 100 50)
   \<and> (\<exists>info s1 s2 s3 p.
           create_background_info example_gtk 10 11 example_world = Some (info, s1)
         \<and> background_info_set_background_by_file example_gtk info ''bg.png'' s1 = Some s2
         \<and> background_info_clear info s2 = Some s3
         \<and> length (filter is_surface_create (since example_world s3)) = 1
         \<and> filter is_surface_destroy (since example_world s3) = [Cairo_surface_destroy p]
         \<and> heap_get (surfaces s3) p = None
         \<and> heap_get (surfaces s3) 1 = Some (PixbufSurface (Pixbuf 64 64) 1 110))"
proof -
  have q: "image_file example_gtk ''bg.png'' = Inr (Pixbuf 100 50)"
    by (simp add: example_gtk_def)
  from create_set_file_clear_releases_one_surface [OF q, of 10 11 example_world]
  obtain info s1 s2 s3 pb win p where c:
    "create_background_info example_gtk 10 11 example_world = Some (info, s1)"
    "background_info_set_background_by_file example_gtk info ''bg.png'' s1 = Some s2"
    "background_info_clear info s2 = Some s3"
    "filter is_surface_create (since example_world s3) =
       [Gdk_cairo_surface_create_from_pixbuf pb 1 win p]"
    "filter is_surface_destroy (since example_world s3) = [Cairo_surface_destroy p]"
    "heap_get (surfaces s3) p = None"
    "\<forall>q. heap_get (surfaces s3) q = heap_get (surfaces example_world) q"
    by blast
  have "heap_get (surfaces s3) 1 = Some (PixbufSurface (Pixbuf 64 64) 1 110)"
    using c(7) example_surface by simp
  moreover have "length (filter is_surface_create (since example_world s3)) = 1"
    using c(4) by simp
  ultimately show ?thesis
    using q c by blast
qed

end
